theory Spec2Isabelle
  imports Complex_Main "HOL-Library.Sublist" "HOL-Library.List_Lexorder"
begin

section \<open>Python strings\<close>

text \<open>
  A Python \<open>str\<close> is a sequence of Unicode code points; \<open>len\<close> and indexing count code
  points. A code point is a natural number, a string is a list of them. \<open>ascii\<close> embeds an
  ASCII literal.
\<close>

type_synonym codepoint = nat
type_synonym pystr = "codepoint list"

definition ascii :: "string \<Rightarrow> pystr" where
  "ascii s = map of_char s"

text \<open>
  The characters that \<open>str.strip()\<close> removes and that \<open>\s\<close> matches in a \<open>str\<close> pattern:
  CPython decides both with the same whitespace test on code points.
\<close>

definition is_space :: "codepoint \<Rightarrow> bool" where
  "is_space c \<longleftrightarrow>
     (9 \<le> c \<and> c \<le> 13) \<or> (28 \<le> c \<and> c \<le> 32) \<or> c = 133 \<or> c = 160 \<or> c = 5760 \<or>
     (8192 \<le> c \<and> c \<le> 8202) \<or> c = 8232 \<or> c = 8233 \<or> c = 8239 \<or> c = 8287 \<or> c = 12288"

definition strip :: "pystr \<Rightarrow> pystr" where
  "strip s = rev (dropWhile is_space (rev (dropWhile is_space s)))"

definition rstrip :: "pystr \<Rightarrow> pystr \<Rightarrow> pystr" where
  "rstrip chars s = rev (dropWhile (\<lambda>c. c \<in> set chars) (rev s))"

text \<open>
  \<open>s.replace(old, new)\<close>: every non-overlapping occurrence of \<open>old\<close>, found from the left.
  With an empty \<open>old\<close> Python puts \<open>new\<close> before every character and at the end.
\<close>

function replace :: "pystr \<Rightarrow> pystr \<Rightarrow> pystr \<Rightarrow> pystr" where
  "replace old new [] = (if old = [] then new else [])"
| "replace old new (c # cs) =
     (if old = [] then new @ c # replace old new cs
      else if prefix old (c # cs) then new @ replace old new (drop (length old) (c # cs))
      else c # replace old new cs)"
  by pat_completeness auto
termination
  by (relation "measure (\<lambda>(old, new, s). length s)") auto

text \<open>\<open>re.sub(r'\s+', ' ', text)\<close>: each maximal run of whitespace becomes one space.\<close>

function collapse_ws :: "pystr \<Rightarrow> pystr" where
  "collapse_ws [] = []"
| "collapse_ws (c # cs) =
     (if is_space c then 32 # collapse_ws (dropWhile is_space cs) else c # collapse_ws cs)"
  by pat_completeness auto
termination
  by (relation "measure length") (auto simp: length_dropWhile_le less_Suc_eq_le)

text \<open>
  \<open>s.split(' ')\<close>: the pieces between single spaces; never the empty list, and two adjacent
  spaces give an empty piece.
\<close>

fun split_on :: "codepoint \<Rightarrow> pystr \<Rightarrow> pystr list" where
  "split_on sep [] = [[]]"
| "split_on sep (c # cs) =
     (if c = sep then [] # split_on sep cs
      else (case split_on sep cs of [] \<Rightarrow> [[c]] | w # ws \<Rightarrow> (c # w) # ws))"

text \<open>
  What the Python runtime supplies and the repository does not contain: \<open>str.lower()\<close> (the
  Unicode case mapping, which is not character-wise) and the formatting of a float with
  \<open>:.2f\<close>. Both are parameters of the model.
\<close>

record runtime =
  str_lower :: "pystr \<Rightarrow> pystr"
  format_2f :: "rat \<Rightarrow> pystr"

section \<open>\<open>normalize_text\<close>\<close>

text \<open>
  The chain of \<open>normalize_text\<close>, call by call. In the source file the literals of the two
  lines commented "Smart quotes" and "Smart apostrophes" are made of ASCII characters only.
  So the two replacements of the first line replace the straight double quote by itself, and
  on the second line the three apostrophes open a triple-quoted literal that runs to the
  next three apostrophes: the line is one call, which replaces the fifteen characters
  \<^verbatim>\<open>, "'").replace(\<close> by one apostrophe.
\<close>

definition apostrophe_literal :: pystr where
  "apostrophe_literal = [44, 32, 34, 39, 34, 41, 46, 114, 101, 112, 108, 97, 99, 101, 40]"

definition normalize_text :: "runtime \<Rightarrow> pystr \<Rightarrow> pystr" where
  "normalize_text rt text =
     (if text = [] then []
      else
        let t = strip text;
            t = str_lower rt t;
            t = replace [10] [32] t;
            t = replace [9] [32] t;
            t = replace [34] [34] t;
            t = replace [34] [34] t;
            t = replace apostrophe_literal [39] t;
            t = replace [8212] [45] t;
            t = replace [8211] [45] t;
            t = replace [8230] [46, 46, 46] t;
            t = rstrip [46] t
        in collapse_ws t)"

section \<open>\<open>calculate_similarity\<close>\<close>

text \<open>
  The source returns a float. The model computes the same quotient exactly, as a rational:
  \<open>matches / max_length\<close> and \<open>(2.0 * common_words) / total_words\<close> are quotients of
  integers.
\<close>

definition char_matches :: "pystr \<Rightarrow> pystr \<Rightarrow> nat" where
  "char_matches text1 text2 =
     length (filter (\<lambda>i. i < length text1 \<and> i < length text2 \<and> text1 ! i = text2 ! i)
               [0 ..< max (length text1) (length text2)])"

definition common_words :: "pystr list \<Rightarrow> pystr list \<Rightarrow> nat" where
  "common_words words1 words2 =
     length (filter (\<lambda>word1. word1 \<in> set words2 \<and> length word1 > 2) words1)"

definition calculate_similarity :: "pystr \<Rightarrow> pystr \<Rightarrow> rat" where
  "calculate_similarity text1 text2 =
     (if text1 = [] \<and> text2 = [] then 1
      else if text1 = [] \<or> text2 = [] then 0
      else if \<bar>int (length text1) - int (length text2)\<bar> \<le> 3 then
        (let matches = char_matches text1 text2;
             max_length = max (length text1) (length text2)
         in if max_length > 0 then of_nat matches / of_nat max_length else 0)
      else
        (let words1 = split_on 32 text1;
             words2 = split_on 32 text2;
             total_words = length words1 + length words2
         in if total_words > 0
            then (2 * of_nat (common_words words1 words2)) / of_nat total_words else 0))"

section \<open>\<open>are_similar_quotes\<close>\<close>

text \<open>
  The result is the pair of the source: the verdict and the reason, \<open>None\<close> when there is no
  match. The thresholds \<open>0.90\<close>, \<open>0.85\<close> and \<open>0.95\<close> are compared with the exact quotient.
\<close>

definition are_similar_quotes ::
  "runtime \<Rightarrow> pystr \<Rightarrow> pystr \<Rightarrow> pystr \<Rightarrow> pystr \<Rightarrow> bool \<times> pystr option" where
  "are_similar_quotes rt quote1_text quote1_author quote2_text quote2_author =
     (let normalized_quote1 = normalize_text rt quote1_text;
          normalized_quote2 = normalize_text rt quote2_text;
          normalized_author1 = normalize_text rt quote1_author;
          normalized_author2 = normalize_text rt quote2_author
      in if normalized_quote1 = normalized_quote2 \<and> normalized_author1 = normalized_author2
         then (True, Some (ascii ''exact_match''))
         else
           let quote_similarity = calculate_similarity normalized_quote1 normalized_quote2
           in if quote_similarity \<ge> 90 / 100 \<and> normalized_author1 = normalized_author2
              then (True, Some (ascii ''similar_quote_same_author_''
                                  @ format_2f rt quote_similarity))
              else
                let author_similarity =
                      calculate_similarity normalized_author1 normalized_author2
                in if normalized_quote1 = normalized_quote2 \<and> author_similarity \<ge> 85 / 100
                   then (True, Some (ascii ''same_quote_similar_author_''
                                       @ format_2f rt author_similarity))
                   else if quote_similarity \<ge> 95 / 100 \<and> author_similarity \<ge> 90 / 100
                   then (True, Some (ascii ''both_similar_q'' @ format_2f rt quote_similarity
                                       @ ascii ''_a'' @ format_2f rt author_similarity))
                   else (False, None))"

text \<open>
  The decision as the specification words it: four rules in a fixed priority order, each
  with a condition on the normalized texts and a reason; the first rule that fires gives the
  verdict.
\<close>

datatype match_rule =
  Exact_match | Similar_quote_same_author | Same_quote_similar_author | Both_similar

definition rule_priority :: "match_rule list" where
  "rule_priority =
     [Exact_match, Similar_quote_same_author, Same_quote_similar_author, Both_similar]"

fun rule_fires :: "match_rule \<Rightarrow> pystr \<Rightarrow> pystr \<Rightarrow> pystr \<Rightarrow> pystr \<Rightarrow> bool" where
  "rule_fires Exact_match q1 a1 q2 a2 \<longleftrightarrow> q1 = q2 \<and> a1 = a2"
| "rule_fires Similar_quote_same_author q1 a1 q2 a2 \<longleftrightarrow>
     calculate_similarity q1 q2 \<ge> 90 / 100 \<and> a1 = a2"
| "rule_fires Same_quote_similar_author q1 a1 q2 a2 \<longleftrightarrow>
     q1 = q2 \<and> calculate_similarity a1 a2 \<ge> 85 / 100"
| "rule_fires Both_similar q1 a1 q2 a2 \<longleftrightarrow>
     calculate_similarity q1 q2 \<ge> 95 / 100 \<and> calculate_similarity a1 a2 \<ge> 90 / 100"

fun rule_reason :: "runtime \<Rightarrow> match_rule \<Rightarrow> pystr \<Rightarrow> pystr \<Rightarrow> pystr \<Rightarrow> pystr \<Rightarrow> pystr" where
  "rule_reason rt Exact_match q1 a1 q2 a2 = ascii ''exact_match''"
| "rule_reason rt Similar_quote_same_author q1 a1 q2 a2 =
     ascii ''similar_quote_same_author_'' @ format_2f rt (calculate_similarity q1 q2)"
| "rule_reason rt Same_quote_similar_author q1 a1 q2 a2 =
     ascii ''same_quote_similar_author_'' @ format_2f rt (calculate_similarity a1 a2)"
| "rule_reason rt Both_similar q1 a1 q2 a2 =
     ascii ''both_similar_q'' @ format_2f rt (calculate_similarity q1 q2)
       @ ascii ''_a'' @ format_2f rt (calculate_similarity a1 a2)"

definition classify_spec ::
  "runtime \<Rightarrow> pystr \<Rightarrow> pystr \<Rightarrow> pystr \<Rightarrow> pystr \<Rightarrow> bool \<times> pystr option" where
  "classify_spec rt candidate_quote candidate_author existing_quote existing_author =
     (let q1 = normalize_text rt candidate_quote;
          a1 = normalize_text rt candidate_author;
          q2 = normalize_text rt existing_quote;
          a2 = normalize_text rt existing_author
      in case find (\<lambda>r. rule_fires r q1 a1 q2 a2) rule_priority of
           None \<Rightarrow> (False, None)
         | Some r \<Rightarrow> (True, Some (rule_reason rt r q1 a1 q2 a2)))"

section \<open>A runtime to evaluate with\<close>

text \<open>
  On a string of ASCII characters \<open>str.lower()\<close> maps \<open>A\<close> to \<open>Z\<close> to \<open>a\<close> to \<open>z\<close> and
  leaves every other character alone. \<open>format_2f_exact\<close> prints a non-negative quotient with
  two decimals, rounding the exact value half to even.
\<close>

definition ascii_lower :: "pystr \<Rightarrow> pystr" where
  "ascii_lower s = map (\<lambda>c. if 65 \<le> c \<and> c \<le> 90 then c + 32 else c) s"

fun str_nat :: "nat \<Rightarrow> pystr" where
  "str_nat n = (if n < 10 then [48 + n] else str_nat (n div 10) @ [48 + n mod 10])"

declare str_nat.simps [simp del]

definition round_half_even :: "rat \<Rightarrow> int" where
  "round_half_even q =
     (let f = \<lfloor>q\<rfloor>; r = q - of_int f
      in if r < 1 / 2 then f else if r > 1 / 2 then f + 1 else if even f then f else f + 1)"

definition format_2f_exact :: "rat \<Rightarrow> pystr" where
  "format_2f_exact q =
     (let n = nat (round_half_even (q * 100))
      in str_nat (n div 100) @ [46, 48 + (n mod 100) div 10, 48 + n mod 10])"

definition ascii_runtime :: runtime where
  "ascii_runtime = \<lparr>str_lower = ascii_lower, format_2f = format_2f_exact\<rparr>"

section \<open>The table and the requests\<close>

text \<open>
  A row of the table is a mapping from attribute names to values; the model keeps the
  attributes the two handlers read or write, each present or absent. The duplicate scans read
  \<open>id\<close>, \<open>quote\<close>, \<open>author\<close> and \<open>created_at\<close>, and take the values for strings.
\<close>

record item =
  item_id :: "pystr option"
  item_quote :: "pystr option"
  item_author :: "pystr option"
  item_tags :: "pystr list option"
  item_created_at :: "pystr option"
  item_updated_at :: "pystr option"
  item_created_by :: "pystr option"

datatype py_error = KeyError | AttributeError | ClientError

text \<open>
  The table is what the handler sees of it: \<open>scan\<close> answers one page, given the
  \<open>ExclusiveStartKey\<close> of the call if it has one, or raises; \<open>get_item\<close> answers the row of
  an id, if there is one, or raises; \<open>put_item\<close> writes a row or raises. The handlers return
  their response together with the rows they have written, in order.
\<close>

type_synonym key = nat

record scan_response =
  Items :: "item list option"
  LastEvaluatedKey :: "key option"

record table =
  scan :: "key option \<Rightarrow> py_error + scan_response"
  get_item :: "pystr \<Rightarrow> py_error + item option"
  put_item :: "item \<Rightarrow> py_error option"

text \<open>
  A parsed JSON value, as far as the handlers tell values apart: a string, an array, or
  anything else with its truth value. \<open>event_body\<close> is the result of \<open>json.loads\<close> on the
  request body: \<open>None\<close> when it raises \<open>JSONDecodeError\<close>, the object otherwise.
  \<open>uuid4\<close> and the two readings of the clock are part of the request, the created quote
  reads the first and the tags metadata the second.
\<close>

datatype json = JString pystr | JArray "json list" | JOther bool

fun truthy :: "json \<Rightarrow> bool" where
  "truthy (JString s) \<longleftrightarrow> s \<noteq> []"
| "truthy (JArray xs) \<longleftrightarrow> xs \<noteq> []"
| "truthy (JOther b) \<longleftrightarrow> b"

record request =
  is_admin :: bool
  username :: pystr
  event_body :: "(pystr \<Rightarrow> json option) option"
  uuid4 :: pystr
  utcnow_quote :: pystr
  utcnow_metadata :: pystr

record duplicate =
  dup_id :: "pystr option"
  dup_quote :: pystr
  dup_author :: pystr
  dup_created_at :: "pystr option"
  match_reason :: "pystr option"

record report =
  is_duplicate :: bool
  duplicate_count :: nat
  duplicates :: "duplicate list"
  message :: pystr

datatype body =
    Error pystr
  | Error_message pystr pystr
  | Validation_failed "pystr list"
  | Duplicate_detected report
  | Quote_created item
  | Check_result report

record response =
  statusCode :: nat
  body :: body

definition create_response :: "nat \<Rightarrow> body \<Rightarrow> response" where
  "create_response status_code b = \<lparr>statusCode = status_code, body = b\<rparr>"

section \<open>\<open>validate_quote_data\<close> and \<open>update_tags_metadata\<close>\<close>

definition required_field :: "(pystr \<Rightarrow> json option) \<Rightarrow> string \<Rightarrow> py_error + pystr list" where
  "required_field data field =
     (let missing = [[39] @ ascii field @ [39] @ ascii '' is required and cannot be empty'']
      in case data (ascii field) of
           None \<Rightarrow> Inr missing
         | Some v \<Rightarrow>
             if \<not> truthy v then Inr missing
             else (case v of
                     JString s \<Rightarrow> if strip s = [] then Inr missing else Inr []
                   | _ \<Rightarrow> Inl AttributeError))"

fun nonempty_string :: "json \<Rightarrow> bool" where
  "nonempty_string (JString s) \<longleftrightarrow> strip s \<noteq> []"
| "nonempty_string _ \<longleftrightarrow> False"

definition validate_quote_data :: "(pystr \<Rightarrow> json option) \<Rightarrow> py_error + pystr list" where
  "validate_quote_data data =
     (case required_field data ''quote'' of
        Inl e \<Rightarrow> Inl e
      | Inr errors1 \<Rightarrow>
          (case required_field data ''author'' of
             Inl e \<Rightarrow> Inl e
           | Inr errors2 \<Rightarrow>
               Inr (errors1 @ errors2 @
                    (case data (ascii ''tags'') of
                       None \<Rightarrow> []
                     | Some (JArray tags) \<Rightarrow>
                         if list_all nonempty_string tags then []
                         else [ascii ''All tags must be non-empty strings'']
                     | Some _ \<Rightarrow> [[39] @ ascii ''tags'' @ [39] @ ascii '' must be an array'']))))"

definition TAGS_METADATA :: pystr where
  "TAGS_METADATA = ascii ''TAGS_METADATA''"

text \<open>
  \<open>update_tags_metadata\<close> swallows every exception; what it returns here is the rows it has
  written.
\<close>

definition update_tags_metadata :: "table \<Rightarrow> pystr \<Rightarrow> pystr list \<Rightarrow> item list" where
  "update_tags_metadata tbl timestamp new_tags =
     (let current_tags =
            (case get_item tbl TAGS_METADATA of
               Inl e \<Rightarrow> []
             | Inr None \<Rightarrow> []
             | Inr (Some row) \<Rightarrow> (case item_tags row of None \<Rightarrow> [] | Some ts \<Rightarrow> ts));
          current_tags = (if new_tags \<noteq> [] then current_tags @ new_tags else current_tags);
          row = \<lparr>item_id = Some TAGS_METADATA, item_quote = None, item_author = None,
                 item_tags = Some (sort (remdups current_tags)),
                 item_created_at = None, item_updated_at = Some timestamp,
                 item_created_by = None\<rparr>
      in case put_item tbl row of None \<Rightarrow> [row] | Some e \<Rightarrow> [])"

section \<open>\<open>handle_create_quote\<close>\<close>

text \<open>
  The loop over the rows of one page. A row without \<open>quote\<close> or without \<open>author\<close> is
  skipped. For a similar row the entry is built from \<open>item['id']\<close>, which raises \<open>KeyError\<close>
  when the row has no \<open>id\<close>.
\<close>

fun create_scan_items ::
  "runtime \<Rightarrow> pystr \<Rightarrow> pystr \<Rightarrow> item list \<Rightarrow> duplicate list \<Rightarrow> py_error + duplicate list" where
  "create_scan_items rt quote_text author [] duplicates_found = Inr duplicates_found"
| "create_scan_items rt quote_text author (row # rows) duplicates_found =
     (case item_quote row of
        None \<Rightarrow> create_scan_items rt quote_text author rows duplicates_found
      | Some q \<Rightarrow>
          (case item_author row of
             None \<Rightarrow> create_scan_items rt quote_text author rows duplicates_found
           | Some a \<Rightarrow>
               if fst (are_similar_quotes rt quote_text author q a) then
                 (case item_id row of
                    None \<Rightarrow> Inl KeyError
                  | Some i \<Rightarrow>
                      create_scan_items rt quote_text author rows
                        (duplicates_found @
                           [\<lparr>dup_id = Some i, dup_quote = q, dup_author = a,
                             dup_created_at =
                               Some (case item_created_at row of None \<Rightarrow> [] | Some c \<Rightarrow> c),
                             match_reason = snd (are_similar_quotes rt quote_text author q a)\<rparr>]))
               else create_scan_items rt quote_text author rows duplicates_found))"

text \<open>
  The \<open>while True\<close> loop over the pages: it ends when a response has no
  \<open>LastEvaluatedKey\<close> or when something raises, and it does not end when the table answers
  with a \<open>LastEvaluatedKey\<close> for ever; then the result is \<open>None\<close>.
\<close>

partial_function (option) create_scan_loop ::
  "runtime \<Rightarrow> table \<Rightarrow> pystr \<Rightarrow> pystr \<Rightarrow> key option \<Rightarrow> duplicate list
     \<Rightarrow> (py_error + duplicate list) option" where
  "create_scan_loop rt tbl quote_text author start duplicates_found =
     (case scan tbl start of
        Inl e \<Rightarrow> Some (Inl e)
      | Inr resp \<Rightarrow>
          (case create_scan_items rt quote_text author
                  (case Items resp of None \<Rightarrow> [] | Some rows \<Rightarrow> rows) duplicates_found of
             Inl e \<Rightarrow> Some (Inl e)
           | Inr found \<Rightarrow>
               (case LastEvaluatedKey resp of
                  None \<Rightarrow> Some (Inr found)
                | Some k \<Rightarrow> create_scan_loop rt tbl quote_text author (Some k) found)))"

definition found_message :: "nat \<Rightarrow> pystr" where
  "found_message n = ascii ''Found '' @ str_nat n @ ascii '' similar quote(s)''"

definition tags_of :: "(pystr \<Rightarrow> json option) \<Rightarrow> pystr list" where
  "tags_of data =
     (case data (ascii ''tags'') of
        Some (JArray ts) \<Rightarrow> concat (map (\<lambda>t. case t of JString s \<Rightarrow> [s] | _ \<Rightarrow> []) ts)
      | _ \<Rightarrow> [])"

definition internal_server_error :: "response \<times> item list" where
  "internal_server_error = (create_response 500 (Error (ascii ''Internal server error'')), [])"

text \<open>The part of the handler after the duplicate check, from the comment "Create new quote".\<close>

definition quote_item :: "request \<Rightarrow> (pystr \<Rightarrow> json option) \<Rightarrow> pystr \<Rightarrow> pystr \<Rightarrow> item" where
  "quote_item req data quote_text author =
     \<lparr>item_id = Some (uuid4 req), item_quote = Some quote_text,
      item_author = Some author, item_tags = Some (tags_of data),
      item_created_at = Some (utcnow_quote req),
      item_updated_at = Some (utcnow_quote req),
      item_created_by = Some (username req)\<rparr>"

definition create_new_quote ::
  "table \<Rightarrow> request \<Rightarrow> (pystr \<Rightarrow> json option) \<Rightarrow> pystr \<Rightarrow> pystr \<Rightarrow> response \<times> item list" where
  "create_new_quote tbl req data quote_text author =
     (case put_item tbl (quote_item req data quote_text author) of
        Some e \<Rightarrow> internal_server_error
      | None \<Rightarrow>
          (create_response 201 (Quote_created (quote_item req data quote_text author)),
           quote_item req data quote_text author
             # update_tags_metadata tbl (utcnow_metadata req) (tags_of data)))"

definition string_field :: "(pystr \<Rightarrow> json option) \<Rightarrow> string \<Rightarrow> py_error + pystr" where
  "string_field data field =
     (case data (ascii field) of
        None \<Rightarrow> Inl KeyError
      | Some (JString s) \<Rightarrow> Inr s
      | Some _ \<Rightarrow> Inl AttributeError)"

definition handle_create_quote ::
  "runtime \<Rightarrow> table \<Rightarrow> request \<Rightarrow> (response \<times> item list) option" where
  "handle_create_quote rt tbl req =
     (if \<not> is_admin req then
        Some (create_response 403
                (Error_message (ascii ''Forbidden'') (ascii ''Admin access required'')), [])
      else
        case event_body req of
          None \<Rightarrow> Some (create_response 400 (Error (ascii ''Invalid JSON in request body'')), [])
        | Some data \<Rightarrow>
            (case validate_quote_data data of
               Inl e \<Rightarrow> Some internal_server_error
             | Inr validation_errors \<Rightarrow>
                 if validation_errors \<noteq> [] then
                   Some (create_response 400 (Validation_failed validation_errors), [])
                 else
                   (case (string_field data ''quote'', string_field data ''author'') of
                      (Inr q, Inr a) \<Rightarrow>
                        (let quote_text = strip q; author = strip a
                         in case create_scan_loop rt tbl quote_text author None [] of
                              None \<Rightarrow> None
                            | Some (Inl e) \<Rightarrow>
                                Some (create_new_quote tbl req data quote_text author)
                            | Some (Inr duplicates_found) \<Rightarrow>
                                if duplicates_found \<noteq> [] then
                                  Some (create_response 409
                                          (Duplicate_detected
                                             \<lparr>is_duplicate = True,
                                              duplicate_count = length duplicates_found,
                                              duplicates = take 5 duplicates_found,
                                              message =
                                                found_message (length duplicates_found)\<rparr>),
                                        [])
                                else Some (create_new_quote tbl req data quote_text author))
                    | _ \<Rightarrow> Some internal_server_error)))"

section \<open>\<open>handle_check_duplicate\<close>\<close>

definition TAGS_prefix :: pystr where
  "TAGS_prefix = ascii ''TAGS_''"

text \<open>
  The loop over the rows of one page. A row is skipped when its \<open>id\<close> starts with
  \<open>TAGS_\<close> or when \<open>item.get('quote')\<close> is falsy: absent or empty. Nothing here raises.
\<close>

fun check_scan_items ::
  "runtime \<Rightarrow> pystr \<Rightarrow> pystr \<Rightarrow> item list \<Rightarrow> duplicate list \<Rightarrow> duplicate list" where
  "check_scan_items rt quote_text author [] duplicates_found = duplicates_found"
| "check_scan_items rt quote_text author (row # rows) duplicates_found =
     (if prefix TAGS_prefix (case item_id row of None \<Rightarrow> [] | Some i \<Rightarrow> i)
         \<or> (case item_quote row of None \<Rightarrow> True | Some q \<Rightarrow> q = [])
      then check_scan_items rt quote_text author rows duplicates_found
      else
        let existing_quote = (case item_quote row of None \<Rightarrow> [] | Some q \<Rightarrow> q);
            existing_author = (case item_author row of None \<Rightarrow> [] | Some a \<Rightarrow> a)
        in if fst (are_similar_quotes rt quote_text author existing_quote existing_author) then
             check_scan_items rt quote_text author rows
               (duplicates_found @
                  [\<lparr>dup_id = item_id row, dup_quote = existing_quote,
                    dup_author = existing_author, dup_created_at = item_created_at row,
                    match_reason =
                      snd (are_similar_quotes rt quote_text author
                             existing_quote existing_author)\<rparr>])
           else check_scan_items rt quote_text author rows duplicates_found)"

partial_function (option) check_scan_loop ::
  "runtime \<Rightarrow> table \<Rightarrow> pystr \<Rightarrow> pystr \<Rightarrow> key option \<Rightarrow> duplicate list
     \<Rightarrow> (py_error + duplicate list) option" where
  "check_scan_loop rt tbl quote_text author start duplicates_found =
     (case scan tbl start of
        Inl e \<Rightarrow> Some (Inl e)
      | Inr resp \<Rightarrow>
          (let found = check_scan_items rt quote_text author
                         (case Items resp of None \<Rightarrow> [] | Some rows \<Rightarrow> rows) duplicates_found
           in case LastEvaluatedKey resp of
                None \<Rightarrow> Some (Inr found)
              | Some k \<Rightarrow> check_scan_loop rt tbl quote_text author (Some k) found))"

definition stripped_field :: "(pystr \<Rightarrow> json option) \<Rightarrow> string \<Rightarrow> py_error + pystr" where
  "stripped_field data field =
     (case data (ascii field) of
        None \<Rightarrow> Inr (strip [])
      | Some (JString s) \<Rightarrow> Inr (strip s)
      | Some _ \<Rightarrow> Inl AttributeError)"

definition handle_check_duplicate ::
  "runtime \<Rightarrow> table \<Rightarrow> request \<Rightarrow> (response \<times> item list) option" where
  "handle_check_duplicate rt tbl req =
     (if \<not> is_admin req then
        Some (create_response 403
                (Error_message (ascii ''Forbidden'') (ascii ''Admin access required'')), [])
      else
        case event_body req of
          None \<Rightarrow> Some (create_response 400 (Error (ascii ''Invalid JSON in request body'')), [])
        | Some data \<Rightarrow>
            (case (stripped_field data ''quote'', stripped_field data ''author'') of
               (Inr quote_text, Inr author) \<Rightarrow>
                 if quote_text = [] \<or> author = [] then
                   Some (create_response 400 (Error (ascii ''Quote and author are required'')), [])
                 else
                   (case check_scan_loop rt tbl quote_text author None [] of
                      None \<Rightarrow> None
                    | Some (Inl e) \<Rightarrow>
                        Some (create_response 500
                                (Error (ascii ''Failed to check for duplicates'')), [])
                    | Some (Inr duplicates_found) \<Rightarrow>
                        if duplicates_found \<noteq> [] then
                          Some (create_response 200
                                  (Check_result
                                     \<lparr>is_duplicate = True,
                                      duplicate_count = length duplicates_found,
                                      duplicates = take 5 duplicates_found,
                                      message = found_message (length duplicates_found)\<rparr>),
                                [])
                        else
                          Some (create_response 200
                                  (Check_result
                                     \<lparr>is_duplicate = False, duplicate_count = 0,
                                      duplicates = [],
                                      message = ascii ''No duplicates found''\<rparr>),
                                []))
             | _ \<Rightarrow> Some internal_server_error))"

section \<open>Tables that answer a scan page by page\<close>

text \<open>
  A table whose scan answers the given outcomes one call after the other: the key of a page
  is its index, every page but the last carries the key of the next one, and an outcome
  \<open>Inl e\<close> is a call that raises \<open>e\<close>. A table with no page answers an empty response.
\<close>

definition scan_of :: "(py_error + item list) list \<Rightarrow> key option \<Rightarrow> py_error + scan_response" where
  "scan_of outcomes start =
     (let i = (case start of None \<Rightarrow> 0 | Some k \<Rightarrow> k)
      in if i < length outcomes then
           (case outcomes ! i of
              Inl e \<Rightarrow> Inl e
            | Inr rows \<Rightarrow>
                Inr \<lparr>Items = Some rows,
                     LastEvaluatedKey =
                       (if Suc i < length outcomes then Some (Suc i) else None)\<rparr>)
         else Inr \<lparr>Items = None, LastEvaluatedKey = None\<rparr>)"

section \<open>The matches of a scan, stated on the rows\<close>

text \<open>
  What the two scans are expected to collect, stated without iteration: the rows in the order
  of the scan, those that are skipped removed, those that are similar to the candidate kept,
  each turned into its entry.
\<close>

definition quote_of :: "item \<Rightarrow> pystr" where
  "quote_of row = (case item_quote row of None \<Rightarrow> [] | Some q \<Rightarrow> q)"

definition author_of :: "item \<Rightarrow> pystr" where
  "author_of row = (case item_author row of None \<Rightarrow> [] | Some a \<Rightarrow> a)"

definition similar_to :: "runtime \<Rightarrow> pystr \<Rightarrow> pystr \<Rightarrow> item \<Rightarrow> bool" where
  "similar_to rt quote_text author row \<longleftrightarrow>
     fst (are_similar_quotes rt quote_text author (quote_of row) (author_of row))"

definition reason_for :: "runtime \<Rightarrow> pystr \<Rightarrow> pystr \<Rightarrow> item \<Rightarrow> pystr option" where
  "reason_for rt quote_text author row =
     snd (are_similar_quotes rt quote_text author (quote_of row) (author_of row))"

definition create_skips :: "item \<Rightarrow> bool" where
  "create_skips row \<longleftrightarrow> item_quote row = None \<or> item_author row = None"

definition create_entry :: "runtime \<Rightarrow> pystr \<Rightarrow> pystr \<Rightarrow> item \<Rightarrow> duplicate" where
  "create_entry rt quote_text author row =
     \<lparr>dup_id = item_id row, dup_quote = quote_of row, dup_author = author_of row,
      dup_created_at = Some (case item_created_at row of None \<Rightarrow> [] | Some c \<Rightarrow> c),
      match_reason = reason_for rt quote_text author row\<rparr>"

definition create_matches :: "runtime \<Rightarrow> pystr \<Rightarrow> pystr \<Rightarrow> item list \<Rightarrow> duplicate list" where
  "create_matches rt quote_text author rows =
     map (create_entry rt quote_text author)
       (filter (\<lambda>row. \<not> create_skips row \<and> similar_to rt quote_text author row) rows)"

definition check_skips :: "item \<Rightarrow> bool" where
  "check_skips row \<longleftrightarrow>
     prefix TAGS_prefix (case item_id row of None \<Rightarrow> [] | Some i \<Rightarrow> i) \<or> quote_of row = []"

definition check_entry :: "runtime \<Rightarrow> pystr \<Rightarrow> pystr \<Rightarrow> item \<Rightarrow> duplicate" where
  "check_entry rt quote_text author row =
     \<lparr>dup_id = item_id row, dup_quote = quote_of row, dup_author = author_of row,
      dup_created_at = item_created_at row,
      match_reason = reason_for rt quote_text author row\<rparr>"

definition check_matches :: "runtime \<Rightarrow> pystr \<Rightarrow> pystr \<Rightarrow> item list \<Rightarrow> duplicate list" where
  "check_matches rt quote_text author rows =
     map (check_entry rt quote_text author)
       (filter (\<lambda>row. \<not> check_skips row \<and> similar_to rt quote_text author row) rows)"

text \<open>A request of an administrator whose body is a valid quote \<open>q\<close> by \<open>a\<close>.\<close>

definition quote_request :: "request \<Rightarrow> (pystr \<Rightarrow> json option) \<Rightarrow> pystr \<Rightarrow> pystr \<Rightarrow> bool" where
  "quote_request req data q a \<longleftrightarrow>
     is_admin req \<and> event_body req = Some data \<and> validate_quote_data data = Inr [] \<and>
     data (ascii ''quote'') = Some (JString q) \<and> data (ascii ''author'') = Some (JString a)"

section \<open>Concrete requests and tables\<close>

definition example_data :: "pystr \<Rightarrow> pystr \<Rightarrow> pystr \<Rightarrow> json option" where
  "example_data q a = map_of [(ascii ''quote'', JString q), (ascii ''author'', JString a)]"

definition example_request :: "pystr \<Rightarrow> pystr \<Rightarrow> request" where
  "example_request q a =
     \<lparr>is_admin = True, username = ascii ''admin'', event_body = Some (example_data q a),
      uuid4 = ascii ''0f8fad5b'', utcnow_quote = ascii ''2024-01-01T00:00:00Z'',
      utcnow_metadata = ascii ''2024-01-01T00:00:01Z''\<rparr>"

definition example_row :: "string \<Rightarrow> string \<Rightarrow> string \<Rightarrow> item" where
  "example_row i q a =
     \<lparr>item_id = Some (ascii i), item_quote = Some (ascii q), item_author = Some (ascii a),
      item_tags = None, item_created_at = None, item_updated_at = None,
      item_created_by = None\<rparr>"

definition example_table :: "(py_error + item list) list \<Rightarrow> table" where
  "example_table outcomes =
     \<lparr>scan = scan_of outcomes, get_item = (\<lambda>i. Inr None), put_item = (\<lambda>row. None)\<rparr>"

text \<open>Seven rows on two pages, six of them the quote \<open>be\<close> by \<open>me\<close>.\<close>

definition seven_rows :: "item list list" where
  "seven_rows =
     [[example_row ''1'' ''be'' ''me'', example_row ''2'' ''be'' ''me'',
       example_row ''3'' ''no'' ''me''],
      [example_row ''4'' ''be'' ''me'', example_row ''5'' ''be'' ''me'',
       example_row ''6'' ''be'' ''me'', example_row ''7'' ''be'' ''me'']]"

text \<open>A row with a quote and no author, and a row with the id of the tags metadata.\<close>

definition row_without_author :: item where
  "row_without_author =
     \<lparr>item_id = Some (ascii ''q1''), item_quote = Some (ascii ''Be yourself''),
      item_author = None, item_tags = None, item_created_at = None, item_updated_at = None,
      item_created_by = None\<rparr>"

definition row_with_metadata_id :: item where
  "row_with_metadata_id = example_row ''TAGS_METADATA'' ''Be yourself'' ''Oscar Wilde''"

text \<open>No two adjacent characters of the string are both the space.\<close>

fun no_double_space :: "pystr \<Rightarrow> bool" where
  "no_double_space (a # b # cs) \<longleftrightarrow> \<not> (a = 32 \<and> b = 32) \<and> no_double_space (b # cs)"
| "no_double_space cs \<longleftrightarrow> True"

section \<open>Lemmas on the similarity score\<close>

lemma char_matches_le: "char_matches a b \<le> max (length a) (length b)"
  unfolding char_matches_def
  by (rule order_trans [OF length_filter_le]) simp

lemma char_matches_commute: "char_matches a b = char_matches b a"
proof -
  have "(\<lambda>i. i < length a \<and> i < length b \<and> a ! i = b ! i) =
        (\<lambda>i. i < length b \<and> i < length a \<and> b ! i = a ! i)"
    by (rule ext) auto
  then show ?thesis
    unfolding char_matches_def by (simp add: max.commute)
qed

lemma common_words_le_left: "common_words ws1 ws2 \<le> length ws1"
  unfolding common_words_def by (rule length_filter_le)

lemma common_words_card:
  assumes "distinct ws1"
  shows "common_words ws1 ws2 = card {w \<in> set ws1. w \<in> set ws2 \<and> length w > 2}"
proof -
  have "distinct (filter (\<lambda>w. w \<in> set ws2 \<and> length w > 2) ws1)"
    using assms by simp
  then have "length (filter (\<lambda>w. w \<in> set ws2 \<and> length w > 2) ws1) =
             card (set (filter (\<lambda>w. w \<in> set ws2 \<and> length w > 2) ws1))"
    by (rule distinct_card [symmetric])
  then show ?thesis
    unfolding common_words_def by simp
qed

lemma common_words_le_right:
  assumes "distinct ws1"
  shows "common_words ws1 ws2 \<le> length ws2"
proof -
  have "{w \<in> set ws1. w \<in> set ws2 \<and> length w > 2} \<subseteq> set ws2" by blast
  then have "card {w \<in> set ws1. w \<in> set ws2 \<and> length w > 2} \<le> card (set ws2)"
    by (intro card_mono) simp_all
  also have "\<dots> \<le> length ws2" by (rule card_length)
  finally show ?thesis using assms by (simp add: common_words_card)
qed

lemma common_words_commute:
  assumes "distinct ws1" "distinct ws2"
  shows "common_words ws1 ws2 = common_words ws2 ws1"
proof -
  have "{w \<in> set ws1. w \<in> set ws2 \<and> length w > 2} = {w \<in> set ws2. w \<in> set ws1 \<and> length w > 2}"
    by blast
  then show ?thesis using assms by (simp add: common_words_card)
qed

lemma split_on_nonempty: "split_on sep s \<noteq> []"
  by (induction s) (auto split: list.splits)

lemma ratio_le_one: "m \<le> n \<Longrightarrow> (of_nat m :: rat) / of_nat n \<le> 1"
  by (cases "n = 0") (simp_all add: divide_le_eq)

section \<open>Lemmas on the scans and the handlers\<close>

lemma check_scan_items_eq:
  "check_scan_items rt q a rows acc = acc @ check_matches rt q a rows"
  by (induction rows arbitrary: acc)
     (auto simp: check_matches_def check_skips_def check_entry_def similar_to_def
        reason_for_def quote_of_def author_of_def Let_def split: option.splits)

lemma create_scan_items_eq:
  assumes "\<forall>row \<in> set rows. item_id row \<noteq> None"
  shows "create_scan_items rt q a rows acc = Inr (acc @ create_matches rt q a rows)"
  using assms
  by (induction rows arbitrary: acc)
     (auto simp: create_matches_def create_skips_def create_entry_def similar_to_def
        reason_for_def quote_of_def author_of_def split: option.splits)

lemma scan_of_page:
  assumes "i < length outcomes" "outcomes ! i = Inr rows" "start = Some i \<or> (start = None \<and> i = 0)"
  shows "scan_of outcomes start =
         Inr \<lparr>Items = Some rows,
              LastEvaluatedKey = (if Suc i < length outcomes then Some (Suc i) else None)\<rparr>"
  using assms by (auto simp: scan_of_def)

lemma scan_of_raise:
  assumes "i < length outcomes" "outcomes ! i = Inl e" "start = Some i \<or> (start = None \<and> i = 0)"
  shows "scan_of outcomes start = Inl e"
  using assms by (auto simp: scan_of_def)

lemma scan_of_empty: "scan_of [] None = Inr \<lparr>Items = None, LastEvaluatedKey = None\<rparr>"
  by (simp add: scan_of_def)

lemma check_scan_loop_pages:
  assumes "scan tbl = scan_of (map Inr pages)" "i < length pages"
    "start = Some i \<or> (start = None \<and> i = 0)"
  shows "check_scan_loop rt tbl q a start acc =
         Some (Inr (acc @ check_matches rt q a (concat (drop i pages))))"
  using assms(2,3)
proof (induction "length pages - i" arbitrary: i start acc)
  case 0
  then show ?case by simp
next
  case (Suc n)
  have page: "scan tbl start =
      Inr \<lparr>Items = Some (pages ! i),
           LastEvaluatedKey = (if Suc i < length pages then Some (Suc i) else None)\<rparr>"
    using Suc.prems scan_of_page [of i "map Inr pages" "pages ! i" start]
    by (simp add: assms(1))
  have dr: "drop i pages = pages ! i # drop (Suc i) pages"
    using Suc.prems by (simp add: Cons_nth_drop_Suc)
  show ?case
  proof (cases "Suc i < length pages")
    case True
    then have "n = length pages - Suc i" using Suc.hyps(2) by simp
    from Suc.hyps(1) [OF this True, of "Some (Suc i)"]
    have "check_scan_loop rt tbl q a (Some (Suc i)) (acc @ check_matches rt q a (pages ! i)) =
          Some (Inr ((acc @ check_matches rt q a (pages ! i)) @
                 check_matches rt q a (concat (drop (Suc i) pages))))"
      by simp
    with page True show ?thesis
      by (subst check_scan_loop.simps)
         (simp add: check_scan_items_eq dr check_matches_def)
  next
    case False
    then have "drop (Suc i) pages = []" by simp
    with page False show ?thesis
      by (subst check_scan_loop.simps) (simp add: check_scan_items_eq dr)
  qed
qed

lemma check_scan_loop_all:
  assumes "scan tbl = scan_of (map Inr pages)"
  shows "check_scan_loop rt tbl q a None [] = Some (Inr (check_matches rt q a (concat pages)))"
proof (cases "pages = []")
  case True
  then show ?thesis
    by (subst check_scan_loop.simps) (simp add: assms scan_of_empty check_matches_def)
next
  case False
  then show ?thesis
    using check_scan_loop_pages [OF assms, of 0 None rt q a "[]"] by simp
qed

lemma create_scan_loop_pages:
  assumes "scan tbl = scan_of (map Inr pages)" "\<forall>row \<in> set (concat pages). item_id row \<noteq> None"
    "i < length pages" "start = Some i \<or> (start = None \<and> i = 0)"
  shows "create_scan_loop rt tbl q a start acc =
         Some (Inr (acc @ create_matches rt q a (concat (drop i pages))))"
  using assms(3,4)
proof (induction "length pages - i" arbitrary: i start acc)
  case 0
  then show ?case by simp
next
  case (Suc n)
  have page: "scan tbl start =
      Inr \<lparr>Items = Some (pages ! i),
           LastEvaluatedKey = (if Suc i < length pages then Some (Suc i) else None)\<rparr>"
    using Suc.prems scan_of_page [of i "map Inr pages" "pages ! i" start]
    by (simp add: assms(1))
  have dr: "drop i pages = pages ! i # drop (Suc i) pages"
    using Suc.prems by (simp add: Cons_nth_drop_Suc)
  have "pages ! i \<in> set pages" using Suc.prems by simp
  then have ids: "\<forall>row \<in> set (pages ! i). item_id row \<noteq> None"
    using assms(2) by auto
  have rows: "create_scan_items rt q a (pages ! i) acc =
              Inr (acc @ create_matches rt q a (pages ! i))"
    by (rule create_scan_items_eq [OF ids])
  show ?case
  proof (cases "Suc i < length pages")
    case True
    then have "n = length pages - Suc i" using Suc.hyps(2) by simp
    from Suc.hyps(1) [OF this True, of "Some (Suc i)"]
    have "create_scan_loop rt tbl q a (Some (Suc i)) (acc @ create_matches rt q a (pages ! i)) =
          Some (Inr ((acc @ create_matches rt q a (pages ! i)) @
                 create_matches rt q a (concat (drop (Suc i) pages))))"
      by simp
    with page True show ?thesis
      by (subst create_scan_loop.simps) (simp add: rows dr create_matches_def)
  next
    case False
    then have "drop (Suc i) pages = []" by simp
    with page False show ?thesis
      by (subst create_scan_loop.simps) (simp add: rows dr)
  qed
qed

lemma create_scan_loop_all:
  assumes "scan tbl = scan_of (map Inr pages)" "\<forall>row \<in> set (concat pages). item_id row \<noteq> None"
  shows "create_scan_loop rt tbl q a None [] = Some (Inr (create_matches rt q a (concat pages)))"
proof (cases "pages = []")
  case True
  then show ?thesis
    by (subst create_scan_loop.simps) (simp add: assms(1) scan_of_empty create_matches_def)
next
  case False
  then show ?thesis
    using create_scan_loop_pages [OF assms, of 0 None rt q a "[]"] by simp
qed

lemma check_scan_loop_raises:
  assumes "scan tbl = scan_of (map Inr pages @ Inl e # rest)" "i \<le> length pages"
    "start = Some i \<or> (start = None \<and> i = 0)"
  shows "check_scan_loop rt tbl q a start acc = Some (Inl e)"
  using assms(2,3)
proof (induction "length pages - i" arbitrary: i start acc)
  case 0
  then have "i = length pages" by simp
  then have "scan tbl start = Inl e"
    using "0.prems" scan_of_raise [of i "map Inr pages @ Inl e # rest" e start]
    by (simp add: assms(1) nth_append)
  then show ?case by (subst check_scan_loop.simps) simp
next
  case (Suc n)
  then have lt: "i < length pages" by simp
  have "scan tbl start = Inr \<lparr>Items = Some (pages ! i), LastEvaluatedKey = Some (Suc i)\<rparr>"
    using lt Suc.prems scan_of_page [of i "map Inr pages @ Inl e # rest" "pages ! i" start]
    by (simp add: assms(1) nth_append)
  moreover have "check_scan_loop rt tbl q a (Some (Suc i)) acc' = Some (Inl e)" for acc'
    using Suc.hyps(1) [of "Suc i" "Some (Suc i)" acc'] Suc.hyps(2) lt by simp
  ultimately show ?case by (subst check_scan_loop.simps) simp
qed

lemma create_scan_loop_raises:
  assumes "scan tbl = scan_of (map Inr pages @ Inl e # rest)" "i \<le> length pages"
    "start = Some i \<or> (start = None \<and> i = 0)"
  shows "\<exists>e'. create_scan_loop rt tbl q a start acc = Some (Inl e')"
  using assms(2,3)
proof (induction "length pages - i" arbitrary: i start acc)
  case 0
  then have "i = length pages" by simp
  then have "scan tbl start = Inl e"
    using "0.prems" scan_of_raise [of i "map Inr pages @ Inl e # rest" e start]
    by (simp add: assms(1) nth_append)
  then show ?case by (subst create_scan_loop.simps) simp
next
  case (Suc n)
  then have lt: "i < length pages" by simp
  have page: "scan tbl start = Inr \<lparr>Items = Some (pages ! i), LastEvaluatedKey = Some (Suc i)\<rparr>"
    using lt Suc.prems scan_of_page [of i "map Inr pages @ Inl e # rest" "pages ! i" start]
    by (simp add: assms(1) nth_append)
  have rec: "\<exists>e'. create_scan_loop rt tbl q a (Some (Suc i)) acc' = Some (Inl e')" for acc'
    using Suc.hyps(1) [of "Suc i" "Some (Suc i)" acc'] Suc.hyps(2) lt by simp
  show ?case
  proof (cases "create_scan_items rt q a (pages ! i) acc")
    case (Inl e1)
    with page show ?thesis by (subst create_scan_loop.simps) simp
  next
    case (Inr found)
    with page rec [of found] show ?thesis by (subst create_scan_loop.simps) simp
  qed
qed

lemma quote_request_stripped:
  assumes "quote_request req data q a"
  shows "strip q \<noteq> [] \<and> strip a \<noteq> []"
  using assms
  by (auto simp: quote_request_def validate_quote_data_def required_field_def Let_def
      split: if_splits sum.splits)

lemma handle_check_duplicate_request:
  assumes "quote_request req data q a"
  shows "handle_check_duplicate rt tbl req =
         (case check_scan_loop rt tbl (strip q) (strip a) None [] of
            None \<Rightarrow> None
          | Some (Inl e) \<Rightarrow>
              Some (create_response 500 (Error (ascii ''Failed to check for duplicates'')), [])
          | Some (Inr found) \<Rightarrow>
              if found \<noteq> [] then
                Some (create_response 200
                        (Check_result
                           \<lparr>is_duplicate = True, duplicate_count = length found,
                            duplicates = take 5 found, message = found_message (length found)\<rparr>),
                      [])
              else
                Some (create_response 200
                        (Check_result
                           \<lparr>is_duplicate = False, duplicate_count = 0, duplicates = [],
                            message = ascii ''No duplicates found''\<rparr>),
                      []))"
  using assms quote_request_stripped [OF assms]
  by (simp add: handle_check_duplicate_def quote_request_def stripped_field_def)

lemma handle_create_quote_request:
  assumes "quote_request req data q a"
  shows "handle_create_quote rt tbl req =
         (case create_scan_loop rt tbl (strip q) (strip a) None [] of
            None \<Rightarrow> None
          | Some (Inl e) \<Rightarrow> Some (create_new_quote tbl req data (strip q) (strip a))
          | Some (Inr found) \<Rightarrow>
              if found \<noteq> [] then
                Some (create_response 409
                        (Duplicate_detected
                           \<lparr>is_duplicate = True, duplicate_count = length found,
                            duplicates = take 5 found, message = found_message (length found)\<rparr>),
                      [])
              else Some (create_new_quote tbl req data (strip q) (strip a)))"
  using assms
  by (simp add: handle_create_quote_def quote_request_def string_field_def Let_def)

section \<open>Lemmas to evaluate with\<close>

lemma str_nat_digit: "n < 10 \<Longrightarrow> str_nat n = [48 + n]"
  by (simp add: str_nat.simps)

lemma str_nat_more: "\<not> n < 10 \<Longrightarrow> str_nat n = str_nat (n div 10) @ [48 + n mod 10]"
  by (subst str_nat.simps) simp

lemmas eval_normalize =
  normalize_text_def ascii_runtime_def ascii_lower_def strip_def rstrip_def is_space_def
  apostrophe_literal_def Let_def ascii_def

lemma example_request_ok:
  assumes "strip q \<noteq> []" "strip a \<noteq> []"
  shows "quote_request (example_request q a) (example_data q a) q a"
proof -
  have "q \<noteq> []" "a \<noteq> []" using assms by (auto simp: strip_def)
  with assms show ?thesis
    by (simp add: quote_request_def example_request_def example_data_def
        validate_quote_data_def required_field_def ascii_def Let_def)
qed

section \<open>Evaluation of the examples\<close>

lemma strip_be: "strip (ascii ''be'') = ascii ''be''"
  by (simp add: strip_def is_space_def ascii_def)

lemma strip_me: "strip (ascii ''me'') = ascii ''me''"
  by (simp add: strip_def is_space_def ascii_def)

lemma normalize_be: "normalize_text ascii_runtime (ascii ''be'') = ascii ''be''"
  by (simp add: eval_normalize)

lemma normalize_me: "normalize_text ascii_runtime (ascii ''me'') = ascii ''me''"
  by (simp add: eval_normalize)

lemma normalize_no: "normalize_text ascii_runtime (ascii ''no'') = ascii ''no''"
  by (simp add: eval_normalize)

lemma similar_be_be:
  "are_similar_quotes ascii_runtime (ascii ''be'') (ascii ''me'') (ascii ''be'') (ascii ''me'')
     = (True, Some (ascii ''exact_match''))"
  unfolding are_similar_quotes_def normalize_be normalize_me Let_def by simp

lemma similar_be_no:
  "are_similar_quotes ascii_runtime (ascii ''be'') (ascii ''me'') (ascii ''no'') (ascii ''me'')
     = (False, None)"
  unfolding are_similar_quotes_def normalize_be normalize_me normalize_no Let_def
  by (simp add: ascii_def calculate_similarity_def char_matches_def upt_conv_Cons)

lemma seven_rows_ids: "\<forall>row \<in> set (concat seven_rows). item_id row \<noteq> None"
  by (simp add: seven_rows_def example_row_def)

lemma seven_rows_check:
  "map dup_id (check_matches ascii_runtime (ascii ''be'') (ascii ''me'') (concat seven_rows)) =
     [Some (ascii ''1''), Some (ascii ''2''), Some (ascii ''4''), Some (ascii ''5''),
      Some (ascii ''6''), Some (ascii ''7'')]"
  apply (simp add: check_matches_def seven_rows_def example_row_def check_skips_def
      similar_to_def quote_of_def author_of_def similar_be_be similar_be_no TAGS_prefix_def
      check_entry_def)
  apply (simp add: ascii_def)
  done

lemma seven_rows_create:
  "map dup_id (create_matches ascii_runtime (ascii ''be'') (ascii ''me'') (concat seven_rows)) =
     [Some (ascii ''1''), Some (ascii ''2''), Some (ascii ''4''), Some (ascii ''5''),
      Some (ascii ''6''), Some (ascii ''7'')]"
  by (simp add: create_matches_def seven_rows_def example_row_def create_skips_def
      similar_to_def quote_of_def author_of_def similar_be_be similar_be_no create_entry_def)

lemma be_me_request:
  "quote_request (example_request (ascii ''be'') (ascii ''me''))
     (example_data (ascii ''be'') (ascii ''me'')) (ascii ''be'') (ascii ''me'')"
  by (rule example_request_ok) (simp_all add: strip_be strip_me, simp_all add: ascii_def)

lemma check_never_writes:
  assumes "handle_check_duplicate rt tbl req = Some (resp, rows)"
  shows "rows = [] \<and> statusCode resp \<noteq> 409"
  using assms
  by (auto simp: handle_check_duplicate_def create_response_def internal_server_error_def
      split: if_splits option.splits sum.splits prod.splits)

section \<open>The claims on \<open>calculate_similarity\<close> and \<open>are_similar_quotes\<close>\<close>

text \<open>
  Claim C2, as the specification states it, fails: a word of the first text that occurs in the
  second is counted once for each of its occurrences in the first, and the score of
  \<open>foo foo foo foo\<close> against \<open>foo\<close> is \<open>8 / 5\<close>.
\<close>

theorem calculate_similarity_above_one:
  "calculate_similarity (ascii ''foo foo foo foo'') (ascii ''foo'') = 8 / 5 \<and>
   \<not> calculate_similarity (ascii ''foo foo foo foo'') (ascii ''foo'') \<le> 1"
  by (simp add: calculate_similarity_def common_words_def ascii_def Let_def)

text \<open>
  Claim C2, amended. The score is never negative and always below 2. It is at most 1 when the
  lengths of the two texts differ by at most 3, when no word of the first text is repeated, or
  when the first text has no more words than the second.
\<close>

theorem calculate_similarity_range:
  "0 \<le> calculate_similarity a b \<and> calculate_similarity a b < 2 \<and>
   (\<bar>int (length a) - int (length b)\<bar> \<le> 3 \<or> distinct (split_on 32 a) \<or>
    length (split_on 32 a) \<le> length (split_on 32 b)
      \<longrightarrow> calculate_similarity a b \<le> 1)"
proof -
  let ?w1 = "split_on 32 a" and ?w2 = "split_on 32 b"
  let ?c = "common_words ?w1 ?w2"
  let ?m = "char_matches a b" and ?n = "max (length a) (length b)"
  have w2: "0 < length ?w2" using split_on_nonempty [of 32 b] by simp
  have cm: "(of_nat ?m :: rat) / of_nat ?n \<le> 1"
    by (rule ratio_le_one) (rule char_matches_le)
  have c1: "?c \<le> length ?w1" by (rule common_words_le_left)
  have lt2: "(2 * of_nat ?c :: rat) / of_nat (length ?w1 + length ?w2) < 2"
  proof -
    have "?c < length ?w1 + length ?w2"
      using c1 w2 by (rule order_le_less_trans [OF _ less_add_same_cancel1 [THEN iffD2]])
    then have "2 * ?c < 2 * (length ?w1 + length ?w2)" by simp
    then have "(of_nat (2 * ?c) :: rat) < of_nat (2 * (length ?w1 + length ?w2))"
      by (simp only: of_nat_less_iff)
    then show ?thesis using w2 by (simp add: divide_less_eq)
  qed
  have le1: "(2 * of_nat ?c :: rat) / of_nat (length ?w1 + length ?w2) \<le> 1"
    if "distinct ?w1 \<or> length ?w1 \<le> length ?w2"
  proof -
    have "?c \<le> length ?w2"
      using that c1 common_words_le_right [of ?w1 ?w2] by auto
    then have "2 * ?c \<le> length ?w1 + length ?w2" using c1 by linarith
    then have "(of_nat (2 * ?c) :: rat) \<le> of_nat (length ?w1 + length ?w2)"
      by (simp only: of_nat_le_iff)
    then show ?thesis using w2 by (simp add: divide_le_eq)
  qed
  have nonneg: "0 \<le> calculate_similarity a b"
    by (simp add: calculate_similarity_def Let_def)
  have lt: "calculate_similarity a b < 2"
    using lt2 cm by (simp add: calculate_similarity_def Let_def)
  have le: "calculate_similarity a b \<le> 1"
    if "\<bar>int (length a) - int (length b)\<bar> \<le> 3 \<or> distinct ?w1 \<or> length ?w1 \<le> length ?w2"
    using that le1 cm by (auto simp add: calculate_similarity_def Let_def)
  show ?thesis using nonneg lt le by blast
qed

theorem calculate_similarity_range_witness:
  "distinct (split_on 32 (ascii ''carpe diem now'')) \<and>
   0 \<le> calculate_similarity (ascii ''carpe diem now'') (ascii ''diem'') \<and>
   calculate_similarity (ascii ''carpe diem now'') (ascii ''diem'') \<le> 1"
proof -
  have h: "distinct (split_on 32 (ascii ''carpe diem now''))"
    by (simp add: ascii_def)
  show ?thesis
    using h calculate_similarity_range [of "ascii ''carpe diem now''" "ascii ''diem''"]
    by blast
qed

text \<open>
  Claim C3, as the specification states it, fails: only the words of the first text are
  counted, so \<open>foo foo foo foo\<close> against \<open>foo\<close> scores \<open>8 / 5\<close> and \<open>foo\<close> against
  \<open>foo foo foo foo\<close> scores \<open>2 / 5\<close>.
\<close>

theorem calculate_similarity_asymmetric:
  "calculate_similarity (ascii ''foo foo foo foo'') (ascii ''foo'') \<noteq>
   calculate_similarity (ascii ''foo'') (ascii ''foo foo foo foo'')"
  by (simp add: calculate_similarity_def common_words_def ascii_def Let_def)

text \<open>
  Claim C3, amended. The score of \<open>a\<close> against \<open>b\<close> equals the score of \<open>b\<close> against \<open>a\<close>
  when the lengths of the two texts differ by at most 3, and when neither text repeats a word.
\<close>

theorem calculate_similarity_symmetric:
  assumes "\<bar>int (length a) - int (length b)\<bar> \<le> 3 \<or>
           (distinct (split_on 32 a) \<and> distinct (split_on 32 b))"
  shows "calculate_similarity a b = calculate_similarity b a"
proof (cases "\<bar>int (length a) - int (length b)\<bar> \<le> 3")
  case True
  then have "\<bar>int (length b) - int (length a)\<bar> \<le> 3" by linarith
  with True show ?thesis
    by (auto simp add: calculate_similarity_def Let_def char_matches_commute max.commute)
next
  case False
  then have f: "\<not> \<bar>int (length b) - int (length a)\<bar> \<le> 3" by linarith
  from False assms have "common_words (split_on 32 a) (split_on 32 b) =
      common_words (split_on 32 b) (split_on 32 a)"
    by (auto intro: common_words_commute)
  with False f show ?thesis
    by (auto simp add: calculate_similarity_def Let_def add.commute)
qed

theorem calculate_similarity_symmetric_witness:
  "calculate_similarity (ascii ''seize the day'') (ascii ''day'') =
   calculate_similarity (ascii ''day'') (ascii ''seize the day'') \<and>
   calculate_similarity (ascii ''seize the day'') (ascii ''day'') = 1 / 2"
proof -
  have h: "\<bar>int (length (ascii ''seize the day'')) - int (length (ascii ''day''))\<bar> \<le> 3 \<or>
           (distinct (split_on 32 (ascii ''seize the day'')) \<and>
            distinct (split_on 32 (ascii ''day'')))"
    by (simp add: ascii_def)
  have v: "calculate_similarity (ascii ''seize the day'') (ascii ''day'') = 1 / 2"
    by (simp add: calculate_similarity_def common_words_def ascii_def Let_def)
  show ?thesis
    using calculate_similarity_symmetric [OF h] v by simp
qed

text \<open>
  Claim C4. \<open>are_similar_quotes\<close> normalizes its four arguments and returns what the first
  rule that fires, in the order exact match, similar quote with the same author, same quote
  with a similar author, both similar, gives: \<open>True\<close> with the reason of that rule, which
  carries the scores formatted with two decimals, and \<open>(False, None)\<close> when none fires.
\<close>

theorem are_similar_quotes_refines_spec:
  "are_similar_quotes rt q1 a1 q2 a2 = classify_spec rt q1 a1 q2 a2"
  by (simp add: are_similar_quotes_def classify_spec_def rule_priority_def Let_def)

theorem are_similar_quotes_refines_spec_witness:
  "classify_spec ascii_runtime (ascii ''Be yourself.'') (ascii ''Oscar Wilde'')
     (ascii ''be yourself'') (ascii ''oscar wilde.'') = (True, Some (ascii ''exact_match'')) \<and>
   classify_spec ascii_runtime (ascii ''carpe diem, baby'') (ascii ''Horace'')
     (ascii ''carpe diem, babe'') (ascii ''horace'') =
     (True, Some (ascii ''similar_quote_same_author_0.94'')) \<and>
   classify_spec ascii_runtime (ascii ''be'') (ascii ''me'') (ascii ''no'') (ascii ''me'') =
     (False, None)"
proof -
  have 1: "are_similar_quotes ascii_runtime (ascii ''Be yourself.'') (ascii ''Oscar Wilde'')
     (ascii ''be yourself'') (ascii ''oscar wilde.'') = (True, Some (ascii ''exact_match''))"
    by (simp add: are_similar_quotes_def eval_normalize)
  have n1: "normalize_text ascii_runtime (ascii ''carpe diem, baby'') = ascii ''carpe diem, baby''"
    by (simp add: eval_normalize)
  have n2: "normalize_text ascii_runtime (ascii ''carpe diem, babe'') = ascii ''carpe diem, babe''"
    by (simp add: eval_normalize)
  have n3: "normalize_text ascii_runtime (ascii ''Horace'') = ascii ''horace''"
    by (simp add: eval_normalize)
  have n4: "normalize_text ascii_runtime (ascii ''horace'') = ascii ''horace''"
    by (simp add: eval_normalize)
  have s: "calculate_similarity (ascii ''carpe diem, baby'') (ascii ''carpe diem, babe'') = 15 / 16"
    by (simp add: calculate_similarity_def char_matches_def ascii_def Let_def upt_conv_Cons)
  have fl: "\<lfloor>375 / 4 :: rat\<rfloor> = 93"
    by (simp add: floor_eq_iff)
  have r: "round_half_even (375 / 4) = 94"
    unfolding round_half_even_def Let_def by (simp add: fl)
  have f: "format_2f ascii_runtime (15 / 16) = ascii ''0.94''"
    by (simp add: ascii_runtime_def format_2f_exact_def r str_nat_digit ascii_def Let_def)
  have 2: "are_similar_quotes ascii_runtime (ascii ''carpe diem, baby'') (ascii ''Horace'')
     (ascii ''carpe diem, babe'') (ascii ''horace'') =
     (True, Some (ascii ''similar_quote_same_author_0.94''))"
    unfolding are_similar_quotes_def n1 n2 n3 n4 Let_def s f
    by (simp add: ascii_def)
  show ?thesis
    using 1 2 similar_be_no
    by (simp only: are_similar_quotes_refines_spec)
qed

section \<open>The claims on the duplicate scan\<close>

text \<open>
  Claim C6. When the scan answers all its pages, the check of duplicates answers with the
  matches of all the rows of all the pages: \<open>duplicates\<close> is the first five of them in the
  order of the scan, \<open>duplicate_count\<close> is the number of all of them. The creation of a quote
  answers the same two values in its conflict response when there is a match and every row
  has an id.
\<close>

theorem duplicate_scan_reports_all_matches:
  assumes "quote_request req data q a" and "scan tbl = scan_of (map Inr pages)"
  shows "(\<exists>rep. handle_check_duplicate rt tbl req =
                  Some (create_response 200 (Check_result rep), []) \<and>
               duplicates rep = take 5 (check_matches rt (strip q) (strip a) (concat pages)) \<and>
               duplicate_count rep =
                 length (check_matches rt (strip q) (strip a) (concat pages))) \<and>
         ((\<forall>row \<in> set (concat pages). item_id row \<noteq> None) \<and>
          create_matches rt (strip q) (strip a) (concat pages) \<noteq> [] \<longrightarrow>
          (\<exists>rep. handle_create_quote rt tbl req =
                  Some (create_response 409 (Duplicate_detected rep), []) \<and>
               duplicates rep = take 5 (create_matches rt (strip q) (strip a) (concat pages)) \<and>
               duplicate_count rep =
                 length (create_matches rt (strip q) (strip a) (concat pages))))"
proof (intro conjI impI)
  let ?ms = "check_matches rt (strip q) (strip a) (concat pages)"
  have loop: "check_scan_loop rt tbl (strip q) (strip a) None [] = Some (Inr ?ms)"
    by (rule check_scan_loop_all [OF assms(2)])
  show "\<exists>rep. handle_check_duplicate rt tbl req =
                 Some (create_response 200 (Check_result rep), []) \<and>
              duplicates rep = take 5 ?ms \<and> duplicate_count rep = length ?ms"
  proof (cases "?ms = []")
    case True
    then show ?thesis
      by (intro exI [of _ "\<lparr>is_duplicate = False, duplicate_count = 0, duplicates = [],
                            message = ascii ''No duplicates found''\<rparr>"])
         (simp add: handle_check_duplicate_request [OF assms(1)] loop)
  next
    case False
    then show ?thesis
      by (intro exI [of _ "\<lparr>is_duplicate = True, duplicate_count = length ?ms,
                            duplicates = take 5 ?ms,
                            message = found_message (length ?ms)\<rparr>"])
         (simp add: handle_check_duplicate_request [OF assms(1)] loop)
  qed
next
  let ?ms = "create_matches rt (strip q) (strip a) (concat pages)"
  assume h: "(\<forall>row \<in> set (concat pages). item_id row \<noteq> None) \<and> ?ms \<noteq> []"
  then have loop: "create_scan_loop rt tbl (strip q) (strip a) None [] = Some (Inr ?ms)"
    using create_scan_loop_all [OF assms(2)] by blast
  show "\<exists>rep. handle_create_quote rt tbl req =
                 Some (create_response 409 (Duplicate_detected rep), []) \<and>
              duplicates rep = take 5 ?ms \<and> duplicate_count rep = length ?ms"
    using h
    by (intro exI [of _ "\<lparr>is_duplicate = True, duplicate_count = length ?ms,
                          duplicates = take 5 ?ms,
                          message = found_message (length ?ms)\<rparr>"])
       (simp add: handle_create_quote_request [OF assms(1)] loop)
qed

theorem duplicate_scan_reports_all_matches_witness:
  "(\<exists>rep. handle_check_duplicate ascii_runtime (example_table (map Inr seven_rows))
             (example_request (ascii ''be'') (ascii ''me'')) =
             Some (create_response 200 (Check_result rep), []) \<and>
          map dup_id (duplicates rep) =
            [Some (ascii ''1''), Some (ascii ''2''), Some (ascii ''4''), Some (ascii ''5''),
             Some (ascii ''6'')] \<and>
          duplicate_count rep = 6) \<and>
   (\<exists>rep. handle_create_quote ascii_runtime (example_table (map Inr seven_rows))
             (example_request (ascii ''be'') (ascii ''me'')) =
             Some (create_response 409 (Duplicate_detected rep), []) \<and>
          map dup_id (duplicates rep) =
            [Some (ascii ''1''), Some (ascii ''2''), Some (ascii ''4''), Some (ascii ''5''),
             Some (ascii ''6'')] \<and>
          duplicate_count rep = 6)"
proof -
  have sc: "scan (example_table (map Inr seven_rows)) = scan_of (map Inr seven_rows)"
    by (simp add: example_table_def)
  have l1: "length (check_matches ascii_runtime (ascii ''be'') (ascii ''me'')
              (concat seven_rows)) = 6"
    using arg_cong [OF seven_rows_check, of length] by simp
  have l2: "length (create_matches ascii_runtime (ascii ''be'') (ascii ''me'')
              (concat seven_rows)) = 6"
    using arg_cong [OF seven_rows_create, of length] by simp
  have ne: "create_matches ascii_runtime (ascii ''be'') (ascii ''me'') (concat seven_rows) \<noteq> []"
    using l2 by auto
  have t1: "map dup_id (take 5 (check_matches ascii_runtime (ascii ''be'') (ascii ''me'')
              (concat seven_rows))) =
            [Some (ascii ''1''), Some (ascii ''2''), Some (ascii ''4''), Some (ascii ''5''),
             Some (ascii ''6'')]"
    by (simp add: take_map [symmetric] seven_rows_check)
  have t2: "map dup_id (take 5 (create_matches ascii_runtime (ascii ''be'') (ascii ''me'')
              (concat seven_rows))) =
            [Some (ascii ''1''), Some (ascii ''2''), Some (ascii ''4''), Some (ascii ''5''),
             Some (ascii ''6'')]"
    by (simp add: take_map [symmetric] seven_rows_create)
  note T = duplicate_scan_reports_all_matches [OF be_me_request sc, of ascii_runtime,
      unfolded strip_be strip_me l1 l2]
  from T obtain rep1 where r1:
    "handle_check_duplicate ascii_runtime (example_table (map Inr seven_rows))
       (example_request (ascii ''be'') (ascii ''me'')) =
       Some (create_response 200 (Check_result rep1), [])"
    "duplicates rep1 = take 5 (check_matches ascii_runtime (ascii ''be'') (ascii ''me'')
                                 (concat seven_rows))"
    "duplicate_count rep1 = 6"
    by blast
  from T seven_rows_ids ne obtain rep2 where r2:
    "handle_create_quote ascii_runtime (example_table (map Inr seven_rows))
       (example_request (ascii ''be'') (ascii ''me'')) =
       Some (create_response 409 (Duplicate_detected rep2), [])"
    "duplicates rep2 = take 5 (create_matches ascii_runtime (ascii ''be'') (ascii ''me'')
                                 (concat seven_rows))"
    "duplicate_count rep2 = 6"
    by blast
  show ?thesis
    by (intro conjI exI [of _ rep1] exI [of _ rep2]) (simp_all add: r1 r2 t1 t2)
qed

text \<open>
  Claim C7. When a call of the scan raises, the creation of a quote goes on as it does after a
  scan that has found nothing: it writes the quote, and answers 201 when the write succeeds.
  The check of duplicates answers the error 500 and no verdict.
\<close>

theorem scan_failure_asymmetry:
  assumes "quote_request req data q a"
    and "scan tbl = scan_of (map Inr pages @ Inl e # rest)"
  shows "handle_create_quote rt tbl req =
           Some (create_new_quote tbl req data (strip q) (strip a)) \<and>
         handle_create_quote rt tbl req =
           handle_create_quote rt (tbl\<lparr>scan := scan_of []\<rparr>) req \<and>
         (put_item tbl (quote_item req data (strip q) (strip a)) = None \<longrightarrow>
            (\<exists>rows. handle_create_quote rt tbl req =
               Some (create_response 201
                       (Quote_created (quote_item req data (strip q) (strip a))),
                     quote_item req data (strip q) (strip a) # rows))) \<and>
         handle_check_duplicate rt tbl req =
           Some (create_response 500 (Error (ascii ''Failed to check for duplicates'')), [])"
proof -
  obtain e' where loop: "create_scan_loop rt tbl (strip q) (strip a) None [] = Some (Inl e')"
    using create_scan_loop_raises [OF assms(2), of 0 None rt "strip q" "strip a" "[]"] by auto
  have c1: "handle_create_quote rt tbl req =
            Some (create_new_quote tbl req data (strip q) (strip a))"
    by (simp add: handle_create_quote_request [OF assms(1)] loop)
  have "scan (tbl\<lparr>scan := scan_of []\<rparr>) = scan_of (map Inr [])" by simp
  then have "create_scan_loop rt (tbl\<lparr>scan := scan_of []\<rparr>) (strip q) (strip a) None [] =
             Some (Inr (create_matches rt (strip q) (strip a) (concat [])))"
    by (rule create_scan_loop_all) simp
  then have "handle_create_quote rt (tbl\<lparr>scan := scan_of []\<rparr>) req =
             Some (create_new_quote (tbl\<lparr>scan := scan_of []\<rparr>) req data (strip q) (strip a))"
    by (simp add: handle_create_quote_request [OF assms(1)] create_matches_def)
  also have "create_new_quote (tbl\<lparr>scan := scan_of []\<rparr>) req data (strip q) (strip a) =
             create_new_quote tbl req data (strip q) (strip a)"
    by (simp add: create_new_quote_def update_tags_metadata_def split: option.splits)
  finally have c2: "handle_create_quote rt tbl req =
                    handle_create_quote rt (tbl\<lparr>scan := scan_of []\<rparr>) req"
    using c1 by simp
  have c3: "put_item tbl (quote_item req data (strip q) (strip a)) = None \<longrightarrow>
            (\<exists>rows. handle_create_quote rt tbl req =
               Some (create_response 201
                       (Quote_created (quote_item req data (strip q) (strip a))),
                     quote_item req data (strip q) (strip a) # rows))"
    by (simp add: c1 create_new_quote_def)
  have "check_scan_loop rt tbl (strip q) (strip a) None [] = Some (Inl e)"
    using check_scan_loop_raises [OF assms(2), of 0 None rt "strip q" "strip a" "[]"] by simp
  then have c4: "handle_check_duplicate rt tbl req =
      Some (create_response 500 (Error (ascii ''Failed to check for duplicates'')), [])"
    by (simp add: handle_check_duplicate_request [OF assms(1)])
  show ?thesis using c1 c2 c3 c4 by blast
qed

theorem scan_failure_asymmetry_witness:
  "(\<exists>rows. handle_create_quote ascii_runtime
              (example_table (map Inr seven_rows @ [Inl ClientError]))
              (example_request (ascii ''be'') (ascii ''me'')) =
            Some (create_response 201
                    (Quote_created
                       (quote_item (example_request (ascii ''be'') (ascii ''me''))
                          (example_data (ascii ''be'') (ascii ''me'')) (ascii ''be'')
                          (ascii ''me''))),
                  quote_item (example_request (ascii ''be'') (ascii ''me''))
                    (example_data (ascii ''be'') (ascii ''me'')) (ascii ''be'') (ascii ''me'')
                    # rows)) \<and>
   handle_check_duplicate ascii_runtime
     (example_table (map Inr seven_rows @ [Inl ClientError]))
     (example_request (ascii ''be'') (ascii ''me'')) =
     Some (create_response 500 (Error (ascii ''Failed to check for duplicates'')), [])"
proof -
  have sc: "scan (example_table (map Inr seven_rows @ [Inl ClientError])) =
            scan_of (map Inr seven_rows @ Inl ClientError # [])"
    by (simp add: example_table_def)
  have pt: "put_item (example_table (map Inr seven_rows @ [Inl ClientError]))
              (quote_item (example_request (ascii ''be'') (ascii ''me''))
                 (example_data (ascii ''be'') (ascii ''me'')) (ascii ''be'') (ascii ''me'')) =
            None"
    by (simp add: example_table_def)
  note T = scan_failure_asymmetry [OF be_me_request sc, of ascii_runtime,
      unfolded strip_be strip_me]
  show ?thesis
    by (rule conjI [OF T [THEN conjunct2, THEN conjunct2, THEN conjunct1, THEN mp, OF pt]
                       T [THEN conjunct2, THEN conjunct2, THEN conjunct2]])
qed

text \<open>
  Claim C8. When the scan answers all its pages, every row has an id and at least one row
  matches, the creation of a quote answers the conflict 409 and writes nothing. The check of
  duplicates writes nothing and never answers 409, whatever the table and the request.
\<close>

theorem creation_blocked_on_duplicate:
  assumes "quote_request req data q a" and "scan tbl = scan_of (map Inr pages)"
    and "\<forall>row \<in> set (concat pages). item_id row \<noteq> None"
    and "create_matches rt (strip q) (strip a) (concat pages) \<noteq> []"
  shows "(\<exists>resp. handle_create_quote rt tbl req = Some (resp, []) \<and> statusCode resp = 409) \<and>
         (\<forall>resp rows. handle_check_duplicate rt tbl2 req2 = Some (resp, rows) \<longrightarrow>
            rows = [] \<and> statusCode resp \<noteq> 409)"
proof -
  have "create_scan_loop rt tbl (strip q) (strip a) None [] =
        Some (Inr (create_matches rt (strip q) (strip a) (concat pages)))"
    by (rule create_scan_loop_all [OF assms(2,3)])
  then have "\<exists>resp. handle_create_quote rt tbl req = Some (resp, []) \<and> statusCode resp = 409"
    using assms(4)
    by (simp add: handle_create_quote_request [OF assms(1)] create_response_def)
  then show ?thesis using check_never_writes by blast
qed

theorem creation_blocked_on_duplicate_witness:
  "(\<exists>resp. handle_create_quote ascii_runtime (example_table (map Inr seven_rows))
              (example_request (ascii ''be'') (ascii ''me'')) = Some (resp, []) \<and>
           statusCode resp = 409) \<and>
   (\<exists>resp. handle_check_duplicate ascii_runtime (example_table (map Inr seven_rows))
              (example_request (ascii ''be'') (ascii ''me'')) = Some (resp, []) \<and>
           statusCode resp = 200)"
proof -
  have sc: "scan (example_table (map Inr seven_rows)) = scan_of (map Inr seven_rows)"
    by (simp add: example_table_def)
  have ne: "create_matches ascii_runtime (strip (ascii ''be'')) (strip (ascii ''me''))
              (concat seven_rows) \<noteq> []"
    using arg_cong [OF seven_rows_create, of length] by (auto simp: strip_be strip_me)
  note T = creation_blocked_on_duplicate [OF be_me_request sc seven_rows_ids ne,
      of "example_table (map Inr seven_rows)" "example_request (ascii ''be'') (ascii ''me'')"]
  have "check_scan_loop ascii_runtime (example_table (map Inr seven_rows))
          (strip (ascii ''be'')) (strip (ascii ''me'')) None [] =
        Some (Inr (check_matches ascii_runtime (strip (ascii ''be'')) (strip (ascii ''me''))
                     (concat seven_rows)))"
    by (rule check_scan_loop_all [OF sc])
  then have "\<exists>resp rows. handle_check_duplicate ascii_runtime (example_table (map Inr seven_rows))
              (example_request (ascii ''be'') (ascii ''me'')) = Some (resp, rows) \<and>
              statusCode resp = 200"
    by (simp add: handle_check_duplicate_request [OF be_me_request] create_response_def)
  with T show ?thesis by blast
qed

section \<open>The claims on \<open>normalize_text\<close> and on the rows the scans skip\<close>

lemma collapse_ws_only_spaces: "c \<in> set (collapse_ws s) \<Longrightarrow> is_space c \<Longrightarrow> c = 32"
  by (induction s rule: collapse_ws.induct) (auto split: if_splits)

lemma collapse_ws_after_run:
  "collapse_ws (dropWhile is_space cs) = [] \<or>
   hd (collapse_ws (dropWhile is_space cs)) \<noteq> 32"
proof (cases "dropWhile is_space cs")
  case Nil
  then show ?thesis by (simp del: dropWhile_eq_Nil_conv)
next
  case (Cons d ds)
  then have "\<not> is_space d" using hd_dropWhile [of is_space cs] by auto
  moreover have "is_space 32" by (simp add: is_space_def)
  ultimately show ?thesis using Cons by auto
qed

lemma no_double_space_Cons:
  "no_double_space ys \<Longrightarrow> c \<noteq> 32 \<or> ys = [] \<or> hd ys \<noteq> 32 \<Longrightarrow> no_double_space (c # ys)"
  by (cases ys) auto

lemma no_double_space_collapse_ws: "no_double_space (collapse_ws s)"
proof (induction s rule: collapse_ws.induct)
  case 1
  then show ?case by simp
next
  case (2 c cs)
  have sp: "is_space 32" by (simp add: is_space_def)
  show ?case
  proof (cases "is_space c")
    case True
    with 2 collapse_ws_after_run [of cs] show ?thesis
      by (auto intro: no_double_space_Cons)
  next
    case False
    with sp have "c \<noteq> 32" by auto
    with False 2 show ?thesis by (auto intro: no_double_space_Cons)
  qed
qed

lemma normalize_text_whitespace:
  "(\<forall>c \<in> set (normalize_text rt x). is_space c \<longrightarrow> c = 32) \<and>
   no_double_space (normalize_text rt x) \<and>
   9 \<notin> set (normalize_text rt x) \<and> 10 \<notin> set (normalize_text rt x)"
proof -
  have "is_space 9" "is_space 10" by (simp_all add: is_space_def)
  then have "9 \<notin> set (collapse_ws s) \<and> 10 \<notin> set (collapse_ws s)" for s
    using collapse_ws_only_spaces [of 9 s] collapse_ws_only_spaces [of 10 s] by auto
  then show ?thesis
    using collapse_ws_only_spaces no_double_space_collapse_ws
    by (auto simp: normalize_text_def Let_def)
qed

text \<open>
  Claim C1. Normalizing \<open>a .\<close> gives \<open>a\<close> followed by a space, and normalizing that gives
  \<open>a\<close>: the second pass changes the result of the first.
\<close>

theorem normalize_text_twice_differs:
  "normalize_text ascii_runtime (ascii ''a .'') = ascii ''a '' \<and>
   normalize_text ascii_runtime (normalize_text ascii_runtime (ascii ''a .'')) = ascii ''a'' \<and>
   normalize_text ascii_runtime (normalize_text ascii_runtime (ascii ''a .'')) \<noteq>
     normalize_text ascii_runtime (ascii ''a .'')"
  by (simp add: eval_normalize)

text \<open>
  Claim C9. The normal form of \<open>Mark Twain .\<close> ends with a space: the whitespace is trimmed
  before the trailing periods are removed, and the space that stood before the period stays.
\<close>

theorem normalize_text_trailing_space:
  "normalize_text ascii_runtime (ascii ''Mark Twain .'') = ascii ''mark twain '' \<and>
   is_space (last (normalize_text ascii_runtime (ascii ''Mark Twain .'')))"
  by (simp add: eval_normalize)

text \<open>
  Claim C10. The string of three periods is not empty and its normal form is empty, for every
  runtime whose \<open>lower\<close> leaves the three periods alone. An author with an empty normal form
  gives the same verdict and reason as the empty author, whatever the other three texts.
\<close>

theorem normalize_text_empty_author:
  assumes "str_lower rt (ascii ''...'') = ascii ''...''"
  shows "ascii ''...'' \<noteq> [] \<and> normalize_text rt (ascii ''...'') = [] \<and>
         (\<forall>x q q2 a2. normalize_text rt x = [] \<longrightarrow>
            are_similar_quotes rt q x q2 a2 = are_similar_quotes rt q [] q2 a2)"
proof -
  have n0: "normalize_text rt [] = []" by (simp add: normalize_text_def)
  have n1: "normalize_text rt (ascii ''...'') = []"
    using assms
    by (simp add: normalize_text_def strip_def rstrip_def is_space_def apostrophe_literal_def
        Let_def ascii_def)
  have "ascii ''...'' \<noteq> []" by (simp add: ascii_def)
  moreover have "are_similar_quotes rt q x q2 a2 = are_similar_quotes rt q [] q2 a2"
    if "normalize_text rt x = []" for x q q2 a2
    using that by (simp add: are_similar_quotes_def n0)
  ultimately show ?thesis using n1 by blast
qed

theorem normalize_text_empty_author_witness:
  "normalize_text ascii_runtime (ascii ''...'') = [] \<and>
   are_similar_quotes ascii_runtime (ascii ''be'') (ascii ''...'') (ascii ''be'') [] =
     are_similar_quotes ascii_runtime (ascii ''be'') [] (ascii ''be'') [] \<and>
   are_similar_quotes ascii_runtime (ascii ''be'') [] (ascii ''be'') [] =
     (True, Some (ascii ''exact_match''))"
proof -
  have h: "str_lower ascii_runtime (ascii ''...'') = ascii ''...''"
    by (simp add: ascii_runtime_def ascii_lower_def ascii_def)
  note T = normalize_text_empty_author [OF h]
  have n: "normalize_text ascii_runtime (ascii ''...'') = []"
    by (rule T [THEN conjunct2, THEN conjunct1])
  have e: "are_similar_quotes ascii_runtime (ascii ''be'') (ascii ''...'') (ascii ''be'') [] =
           are_similar_quotes ascii_runtime (ascii ''be'') [] (ascii ''be'') []"
    by (rule T [THEN conjunct2, THEN conjunct2, rule_format, OF n])
  have v: "are_similar_quotes ascii_runtime (ascii ''be'') [] (ascii ''be'') [] =
           (True, Some (ascii ''exact_match''))"
    by (simp add: are_similar_quotes_def)
  show ?thesis using n e v by blast
qed

text \<open>
  Claim C5. The check of duplicates compares a row that has a quote and no author, and reports
  it for a candidate whose author has an empty normal form. The creation of a quote compares a
  row whose id is that of the tags metadata when the row has a quote and an author, and
  answers the conflict.
\<close>

theorem duplicate_scan_compares_excluded_rows:
  "handle_check_duplicate ascii_runtime (example_table [Inr [row_without_author]])
     (example_request (ascii ''Be yourself'') (ascii ''...'')) =
     Some (create_response 200
             (Check_result
                \<lparr>is_duplicate = True, duplicate_count = 1,
                 duplicates =
                   [\<lparr>dup_id = Some (ascii ''q1''), dup_quote = ascii ''Be yourself'',
                     dup_author = [], dup_created_at = None,
                     match_reason = Some (ascii ''exact_match'')\<rparr>],
                 message = found_message 1\<rparr>),
           []) \<and>
   handle_create_quote ascii_runtime (example_table [Inr [row_with_metadata_id]])
     (example_request (ascii ''Be yourself'') (ascii ''Oscar Wilde'')) =
     Some (create_response 409
             (Duplicate_detected
                \<lparr>is_duplicate = True, duplicate_count = 1,
                 duplicates =
                   [\<lparr>dup_id = Some TAGS_METADATA, dup_quote = ascii ''Be yourself'',
                     dup_author = ascii ''Oscar Wilde'', dup_created_at = Some [],
                     match_reason = Some (ascii ''exact_match'')\<rparr>],
                 message = found_message 1\<rparr>),
           [])"
proof -
  have sq: "strip (ascii ''Be yourself'') = ascii ''Be yourself''"
    by (simp add: strip_def is_space_def ascii_def)
  have sd: "strip (ascii ''...'') = ascii ''...''"
    by (simp add: strip_def is_space_def ascii_def)
  have sw: "strip (ascii ''Oscar Wilde'') = ascii ''Oscar Wilde''"
    by (simp add: strip_def is_space_def ascii_def)
  have ne: "ascii ''Be yourself'' \<noteq> []" "ascii ''...'' \<noteq> []" "ascii ''Oscar Wilde'' \<noteq> []"
    by (simp_all add: ascii_def)
  have r1: "quote_request (example_request (ascii ''Be yourself'') (ascii ''...''))
              (example_data (ascii ''Be yourself'') (ascii ''...''))
              (ascii ''Be yourself'') (ascii ''...'')"
    by (rule example_request_ok) (simp_all add: sq sd ne)
  have r2: "quote_request (example_request (ascii ''Be yourself'') (ascii ''Oscar Wilde''))
              (example_data (ascii ''Be yourself'') (ascii ''Oscar Wilde''))
              (ascii ''Be yourself'') (ascii ''Oscar Wilde'')"
    by (rule example_request_ok) (simp_all add: sq sw ne)
  have nd: "normalize_text ascii_runtime (ascii ''...'') = []"
    by (simp add: eval_normalize)
  have n0: "normalize_text ascii_runtime [] = []"
    by (simp add: normalize_text_def)
  have a1: "are_similar_quotes ascii_runtime (ascii ''Be yourself'') (ascii ''...'')
              (ascii ''Be yourself'') [] = (True, Some (ascii ''exact_match''))"
    by (simp add: are_similar_quotes_def nd n0)
  have a2: "are_similar_quotes ascii_runtime (ascii ''Be yourself'') (ascii ''Oscar Wilde'')
              (ascii ''Be yourself'') (ascii ''Oscar Wilde'') =
            (True, Some (ascii ''exact_match''))"
    by (simp add: are_similar_quotes_def)
  have np: "\<not> prefix TAGS_prefix (ascii ''q1'')"
    by (simp add: TAGS_prefix_def ascii_def)
  have m1: "check_matches ascii_runtime (ascii ''Be yourself'') (ascii ''...'')
              [row_without_author] =
            [\<lparr>dup_id = Some (ascii ''q1''), dup_quote = ascii ''Be yourself'',
              dup_author = [], dup_created_at = None,
              match_reason = Some (ascii ''exact_match'')\<rparr>]"
    by (simp add: check_matches_def row_without_author_def check_skips_def similar_to_def
        quote_of_def author_of_def check_entry_def reason_for_def a1 np ne)
  have m2: "create_matches ascii_runtime (ascii ''Be yourself'') (ascii ''Oscar Wilde'')
              [row_with_metadata_id] =
            [\<lparr>dup_id = Some TAGS_METADATA, dup_quote = ascii ''Be yourself'',
              dup_author = ascii ''Oscar Wilde'', dup_created_at = Some [],
              match_reason = Some (ascii ''exact_match'')\<rparr>]"
    by (simp add: create_matches_def row_with_metadata_id_def example_row_def
        create_skips_def similar_to_def quote_of_def author_of_def create_entry_def
        reason_for_def a2 TAGS_METADATA_def)
  have l1: "check_scan_loop ascii_runtime (example_table [Inr [row_without_author]])
              (ascii ''Be yourself'') (ascii ''...'') None [] =
            Some (Inr (check_matches ascii_runtime (ascii ''Be yourself'') (ascii ''...'')
                         (concat [[row_without_author]])))"
    by (rule check_scan_loop_all) (simp add: example_table_def)
  have l2: "create_scan_loop ascii_runtime (example_table [Inr [row_with_metadata_id]])
              (ascii ''Be yourself'') (ascii ''Oscar Wilde'') None [] =
            Some (Inr (create_matches ascii_runtime (ascii ''Be yourself'')
                         (ascii ''Oscar Wilde'') (concat [[row_with_metadata_id]])))"
    by (rule create_scan_loop_all)
       (simp_all add: example_table_def row_with_metadata_id_def example_row_def)
  show ?thesis
    by (simp add: handle_check_duplicate_request [OF r1] handle_create_quote_request [OF r2]
        sq sd sw l1 l2 m1 m2)
qed

end
